theory Spec2Isabelle
  imports Complex_Main
begin

section \<open>Values, strings and dictionaries\<close>

text \<open>
  Both scripts (\<open>src/script/fetch_pricing.py\<close> and \<open>src/scripts/fetch_pricing.py\<close>)
  handle JSON-like data: a pricing document is a dict with the keys \<open>last_updated\<close>,
  \<open>sources\<close> and \<open>models\<close>; \<open>models\<close> maps a provider to a snapshot; a snapshot maps a
  model identifier to a price record; a price record is a dict with the keys \<open>input\<close>,
  \<open>output\<close> and \<open>description\<close>.  The nesting is typed as the signatures
  (\<open>Dict\<close>, \<open>Optional[Dict]\<close>) and the persisted schema give it; what is left dynamic is
  what the code itself inspects at run time: the value of a field of a price record
  (read with \<open>.get\<close>, tested with \<open>isinstance\<close>, compared with \<open>!=\<close> and printed), the
  presence of a key, and the truth value of a dict.

  Strings are byte strings: a character outside ASCII is its UTF-8 bytes, and
  \<open>lower\<close>, \<open>upper\<close>, \<open>strip\<close> and the digit class act on ASCII only.
\<close>

datatype pyval =
    PyNone
  | PyBool bool
  | PyInt int
  | PyFloat rat
  | PyNaN
  | PyStr string

text \<open>
  \<open>PyFloat r\<close> is a finite float of value \<open>r\<close>, \<open>PyNaN\<close> the float that differs from
  itself (\<open>json.load\<close> accepts the literal \<open>NaN\<close>).  The infinities are left out: they
  compare equal to themselves and lie outside every range tested here.
\<close>

type_synonym 'v dict = "(string \<times> 'v) list"

text \<open>
  A dict is an association list in insertion order.  Python keeps the keys of a dict
  distinct; \<open>dict_ok\<close> says so.  \<open>d[k] = v\<close> replaces the value of a key in place and
  appends a new key at the end.
\<close>

definition dict_ok :: "'v dict \<Rightarrow> bool" where
  "dict_ok d = distinct (map fst d)"

fun dict_set :: "'v dict \<Rightarrow> string \<Rightarrow> 'v \<Rightarrow> 'v dict" where
  "dict_set [] k v = [(k, v)]"
| "dict_set ((k', v') # d) k v = (if k' = k then (k, v) # d else (k', v') # dict_set d k v)"

definition dict_has :: "'v dict \<Rightarrow> string \<Rightarrow> bool" where
  \<comment> \<open>\<open>k in d\<close>\<close>
  "dict_has d k = (map_of d k \<noteq> None)"

type_synonym model_data = "pyval dict"
type_synonym snapshot = "model_data dict"

definition get_field :: "model_data \<Rightarrow> string \<Rightarrow> pyval" where
  \<comment> \<open>\<open>model_data.get(k)\<close>: \<open>None\<close> for a missing key\<close>
  "get_field model_data k = (case map_of model_data k of None \<Rightarrow> PyNone | Some v \<Rightarrow> v)"

record document =
  last_updated :: "string option"
  sources :: "string dict option"
  models :: "snapshot dict option"

text \<open>
  Each key of a document may be missing (\<open>None\<close>); the document with no key is the
  empty dict \<open>{}\<close>.
\<close>

definition empty_document :: document where
  "empty_document = \<lparr>last_updated = None, sources = None, models = None\<rparr>"

definition get_models :: "document \<Rightarrow> snapshot dict" where
  \<comment> \<open>\<open>doc.get('models', {})\<close>\<close>
  "get_models doc = (case models doc of None \<Rightarrow> [] | Some m \<Rightarrow> m)"

definition truthy_document :: "document option \<Rightarrow> bool" where
  \<comment> \<open>the truth value of an \<open>Optional[Dict]\<close>: false for \<open>None\<close> and for \<open>{}\<close>\<close>
  "truthy_document d = (case d of None \<Rightarrow> False | Some doc \<Rightarrow> doc \<noteq> empty_document)"

definition truthy_snapshot :: "snapshot option \<Rightarrow> bool" where
  "truthy_snapshot s = (case s of None \<Rightarrow> False | Some d \<Rightarrow> d \<noteq> [])"

subsection \<open>String operations\<close>

definition lower_char :: "char \<Rightarrow> char" where
  "lower_char c =
     (case map_of (zip ''ABCDEFGHIJKLMNOPQRSTUVWXYZ'' ''abcdefghijklmnopqrstuvwxyz'') c of
        None \<Rightarrow> c | Some l \<Rightarrow> l)"

definition upper_char :: "char \<Rightarrow> char" where
  "upper_char c =
     (case map_of (zip ''abcdefghijklmnopqrstuvwxyz'' ''ABCDEFGHIJKLMNOPQRSTUVWXYZ'') c of
        None \<Rightarrow> c | Some u \<Rightarrow> u)"

definition lower :: "string \<Rightarrow> string" where
  \<comment> \<open>\<open>str.lower\<close> on ASCII text; the bytes of a character outside ASCII are kept, where
      Python would lower a cased letter such as U+00C9\<close>
  "lower s = map lower_char s"

definition upper :: "string \<Rightarrow> string" where
  \<comment> \<open>\<open>str.upper\<close> on ASCII text, with the same limit\<close>
  "upper s = map upper_char s"

definition startswith :: "string \<Rightarrow> string \<Rightarrow> bool" where
  "startswith s prefix = (take (length prefix) s = prefix)"

definition is_space :: "char \<Rightarrow> bool" where
  \<comment> \<open>the ASCII characters \<open>str.isspace\<close> accepts: TAB, LF, VT, FF, CR, FS, GS, RS, US, space\<close>
  "is_space c =
     (let n = (of_char c :: nat) in (9 \<le> n \<and> n \<le> 13) \<or> (28 \<le> n \<and> n \<le> 32))"

definition strip :: "string \<Rightarrow> string" where
  \<comment> \<open>\<open>str.strip\<close> on ASCII text; Python also removes the white space outside ASCII
      (U+0085, U+00A0, U+2000 and so on), which is kept here\<close>
  "strip s = rev (dropWhile is_space (rev (dropWhile is_space s)))"

definition is_digit :: "char \<Rightarrow> bool" where
  \<comment> \<open>the ASCII digits; Python's \<open>\d\<close> and \<open>float\<close> also take the decimal digits of other
      scripts, which are no digits here\<close>
  "is_digit c = (let n = (of_char c :: nat) in 48 \<le> n \<and> n \<le> 57)"

definition digits_val :: "string \<Rightarrow> nat" where
  \<comment> \<open>the number a string of decimal digits writes\<close>
  "digits_val ds = foldl (\<lambda>acc c. 10 * acc + (of_char c - 48)) 0 ds"

subsection \<open>Numbers: comparison and printing\<close>

definition is_number :: "pyval \<Rightarrow> bool" where
  \<comment> \<open>\<open>isinstance(v, (int, float))\<close>; \<open>bool\<close> is a subclass of \<open>int\<close>\<close>
  "is_number v = (case v of PyBool _ \<Rightarrow> True | PyInt _ \<Rightarrow> True | PyFloat _ \<Rightarrow> True
                          | PyNaN \<Rightarrow> True | _ \<Rightarrow> False)"

definition num_val :: "pyval \<Rightarrow> rat option" where
  \<comment> \<open>the value of a number that has one\<close>
  "num_val v = (case v of PyBool b \<Rightarrow> Some (if b then 1 else 0) | PyInt i \<Rightarrow> Some (of_int i)
                        | PyFloat r \<Rightarrow> Some r | _ \<Rightarrow> None)"

definition num_lt :: "pyval \<Rightarrow> pyval \<Rightarrow> bool" where
  \<comment> \<open>\<open>a < b\<close> on numbers; every comparison with NaN is false\<close>
  "num_lt a b = (case (num_val a, num_val b) of (Some x, Some y) \<Rightarrow> x < y | _ \<Rightarrow> False)"

definition py_eq :: "pyval \<Rightarrow> pyval \<Rightarrow> bool" where
  \<comment> \<open>\<open>a == b\<close>: numbers by value (\<open>10 == 10.0\<close>, \<open>True == 1\<close>), NaN equal to nothing\<close>
  "py_eq a b =
     (case (num_val a, num_val b) of
        (Some x, Some y) \<Rightarrow> x = y
      | (None, None) \<Rightarrow> a \<noteq> PyNaN \<and> a = b
      | _ \<Rightarrow> False)"

definition digit_char :: "nat \<Rightarrow> char" where
  "digit_char n = ''0123456789'' ! (n mod 10)"

fun str_nat :: "nat \<Rightarrow> string" where
  "str_nat n = (if n < 10 then [digit_char n] else str_nat (n div 10) @ [digit_char n])"

declare str_nat.simps [simp del]

definition str_int :: "int \<Rightarrow> string" where
  "str_int i = (if i < 0 then CHR ''-'' # str_nat (nat (- i)) else str_nat (nat i))"

definition py_str :: "(rat \<Rightarrow> string) \<Rightarrow> pyval \<Rightarrow> string" where
  \<comment> \<open>\<open>str(v)\<close>, as an f-string prints a value.  The decimal text of a finite float is
      the interpreter's \<open>float.__repr__\<close>, taken as the parameter \<open>float_repr\<close>.\<close>
  "py_str float_repr v =
     (case v of
        PyNone \<Rightarrow> ''None''
      | PyBool b \<Rightarrow> (if b then ''True'' else ''False'')
      | PyInt i \<Rightarrow> str_int i
      | PyFloat r \<Rightarrow> float_repr r
      | PyNaN \<Rightarrow> ''nan''
      | PyStr s \<Rightarrow> s)"

section \<open>The differ: \<open>compare_pricing\<close>\<close>

text \<open>
  \<open>compare_pricing\<close> is the same text in both scripts (script: lines 339-390, scripts:
  lines 222-273).  Its \<open>for\<close> statements append to one list \<open>changes\<close>; each is
  modelled as the list of the lines it appends, in iteration order.  The test
  \<open>not old\<close> is true for \<open>None\<close> and for the empty dict.
\<close>

definition arrow :: string where
  \<comment> \<open>U+2192 RIGHTWARDS ARROW in UTF-8\<close>
  "arrow = [CHR 0xE2, CHR 0x86, CHR 0x92]"

definition price_change :: "(rat \<Rightarrow> string) \<Rightarrow> string \<Rightarrow> string \<Rightarrow> string \<Rightarrow> pyval \<Rightarrow> pyval \<Rightarrow> string" where
  \<comment> \<open>\<open>f"Price change: {provider}/{model_name} input ${old} -> ${new}"\<close>\<close>
  "price_change float_repr provider model_name field old_v new_v =
     ''Price change: '' @ provider @ ''/'' @ model_name @ '' '' @ field @ '' $''
       @ py_str float_repr old_v @ '' '' @ arrow @ '' $'' @ py_str float_repr new_v"

definition model_changes ::
  "(rat \<Rightarrow> string) \<Rightarrow> string \<Rightarrow> snapshot \<Rightarrow> string \<times> model_data \<Rightarrow> string list" where
  \<comment> \<open>the body of \<open>for model_name, model_data in models.items()\<close>\<close>
  "model_changes float_repr provider old_provider_models item =
     (case item of (model_name, model_data) \<Rightarrow>
        (case map_of old_provider_models model_name of
           None \<Rightarrow> [''New model: '' @ provider @ ''/'' @ model_name]
         | Some old_model \<Rightarrow>
             (if \<not> py_eq (get_field old_model ''input'') (get_field model_data ''input'')
              then [price_change float_repr provider model_name ''input''
                      (get_field old_model ''input'') (get_field model_data ''input'')]
              else [])
             @ (if \<not> py_eq (get_field old_model ''output'') (get_field model_data ''output'')
                then [price_change float_repr provider model_name ''output''
                        (get_field old_model ''output'') (get_field model_data ''output'')]
                else [])))"

definition removed_models :: "string \<Rightarrow> snapshot \<Rightarrow> snapshot \<Rightarrow> string list" where
  \<comment> \<open>\<open>for model_name in old_provider_models: if model_name not in models: ...\<close>\<close>
  "removed_models provider old_provider_models models' =
     map (\<lambda>model_name. ''Removed model: '' @ provider @ ''/'' @ model_name)
       (filter (\<lambda>model_name. \<not> dict_has models' model_name) (map fst old_provider_models))"

definition provider_changes ::
  "(rat \<Rightarrow> string) \<Rightarrow> snapshot dict \<Rightarrow> string \<times> snapshot \<Rightarrow> string list" where
  \<comment> \<open>the body of \<open>for provider, models in new_models.items()\<close>\<close>
  "provider_changes float_repr old_models item =
     (case item of (provider, models') \<Rightarrow>
        (case map_of old_models provider of
           None \<Rightarrow> []
         | Some old_provider_models \<Rightarrow>
             concat (map (model_changes float_repr provider old_provider_models) models')
             @ removed_models provider old_provider_models models'))"

definition compare_pricing ::
  "(rat \<Rightarrow> string) \<Rightarrow> document option \<Rightarrow> document \<Rightarrow> bool \<times> string list" where
  "compare_pricing float_repr old new =
     (case old of
        None \<Rightarrow> (True, [''Initial pricing data created''])
      | Some old_doc \<Rightarrow>
          if old_doc = empty_document then (True, [''Initial pricing data created''])
          else
            (let old_models = get_models old_doc;
                 new_models = get_models new;
                 changes =
                   map (\<lambda>provider. ''New provider: '' @ provider)
                     (filter (\<lambda>provider. \<not> dict_has old_models provider) (map fst new_models))
                   @ map (\<lambda>provider. ''Removed provider: '' @ provider)
                     (filter (\<lambda>provider. \<not> dict_has new_models provider) (map fst old_models))
                   @ concat (map (provider_changes float_repr old_models) new_models)
             in (length changes > 0, changes)))"

section \<open>The OpenAI extractor\<close>

text \<open>
  \<open>_parse_openai_pricing\<close> (script, lines 118-168) and the loop inside
  \<open>fetch_openai_pricing\<close> (scripts, lines 52-99) are the same code.  The HTML library
  is outside the repository: the input of the model is what \<open>find_all\<close> and
  \<open>get_text(strip=True)\<close> hand to the loop, the tables of the page, each a list of
  rows, each row the list of the texts of its cells.
\<close>

definition is_price_char :: "char \<Rightarrow> bool" where
  \<comment> \<open>the class \<open>[\d.]\<close>\<close>
  "is_price_char c = (is_digit c \<or> c = CHR ''.'')"

definition price_match :: "string \<Rightarrow> string option" where
  \<comment> \<open>\<open>re.search(r'\$?([\d.]+)', text)\<close>, group 1.  The leftmost match starts at the
      first character of the class or at a dollar sign right before it, and the greedy
      \<open>+\<close> takes the whole run: group 1 is the first maximal run of digits and dots.\<close>
  "price_match text =
     (let run = takeWhile is_price_char (dropWhile (\<lambda>c. \<not> is_price_char c) text)
      in if run = [] then None else Some run)"

definition py_float :: "string \<Rightarrow> rat option" where
  \<comment> \<open>\<open>float(s)\<close> for a string of digits and dots, as group 1 is; \<open>None\<close> is
      \<open>ValueError\<close> (no digit, or more than one dot).  The result is the decimal value
      itself: the rounding to a binary float is not modelled, so the model and the code
      agree on the decimals a float holds exactly or prints back (up to 15 significant
      digits), and may differ beyond, as on \<open>999.99999999999999999\<close>, which Python rounds
      to 1000.0.\<close>
  "py_float s =
     (let int_part = takeWhile is_digit s; rest = dropWhile is_digit s
      in case rest of
           [] \<Rightarrow> (if int_part = [] then None else Some (of_nat (digits_val int_part)))
         | c # frac_part \<Rightarrow>
             (if c = CHR ''.'' \<and> list_all is_digit frac_part \<and> int_part @ frac_part \<noteq> []
              then Some (of_nat (digits_val (int_part @ frac_part)) / 10 ^ length frac_part)
              else None))"

fun find_model_name :: "string list \<Rightarrow> string option" where
  \<comment> \<open>the first cell that starts with \<open>gpt-\<close> or \<open>o1\<close>, lower-cased (loop with \<open>break\<close>)\<close>
  "find_model_name [] = None"
| "find_model_name (text # rest) =
     (let text_lower = lower text
      in if startswith text_lower ''gpt-'' \<or> startswith text_lower ''o1''
         then Some text_lower else find_model_name rest)"

fun extract_prices :: "string list \<Rightarrow> rat list" where
  \<comment> \<open>the loop over \<open>cell_texts\<close> that appends to \<open>prices\<close>: every cell of the row\<close>
  "extract_prices [] = []"
| "extract_prices (text # rest) =
     (case price_match text of
        None \<Rightarrow> extract_prices rest
      | Some group1 \<Rightarrow>
          (case py_float group1 of
             None \<Rightarrow> extract_prices rest
           | Some price \<Rightarrow>
               if 0 < price \<and> price < 1000 then price # extract_prices rest
               else extract_prices rest))"

definition parse_row :: "string list \<Rightarrow> snapshot \<Rightarrow> snapshot" where
  \<comment> \<open>the body of \<open>for row in rows\<close>\<close>
  "parse_row cell_texts pricing_dict =
     (if length cell_texts \<ge> 3 then
        (case find_model_name cell_texts of
           None \<Rightarrow> pricing_dict
         | Some model_name \<Rightarrow>
             (case extract_prices cell_texts of
                price0 # price1 # _ \<Rightarrow>
                  dict_set pricing_dict model_name
                    [(''input'', PyFloat price0), (''output'', PyFloat price1),
                     (''description'', PyStr (upper model_name))]
              | _ \<Rightarrow> pricing_dict))
      else pricing_dict)"

definition parse_openai_pricing :: "string list list list \<Rightarrow> snapshot option" where
  "parse_openai_pricing tables =
     (let pricing_dict = fold (\<lambda>table. fold parse_row table) tables []
      in if pricing_dict \<noteq> [] then Some pricing_dict else None)"

section \<open>The validator\<close>

text \<open>
  \<open>validate_pricing_data\<close> (script, lines 292-336).  Its argument is typed as a
  snapshot, so the two \<open>isinstance(..., dict)\<close> tests hold.  The test
  \<open>valid_models < len(pricing_dict) * 0.8\<close> is written with exact numbers: for a
  length that is a multiple of 5 the float product is the integer itself, and for any
  other length it is at least 0.2 away from every integer, far more than its rounding
  error.  The third argument only chooses a message.
\<close>

definition valid_prices :: "model_data \<Rightarrow> bool" where
  "valid_prices model_data =
     (let input_price = get_field model_data ''input'';
          output_price = get_field model_data ''output''
      in if is_number input_price \<and> is_number output_price then
           (num_lt (PyInt 0) input_price \<and> num_lt input_price (PyInt 1000)
            \<and> num_lt (PyInt 0) output_price \<and> num_lt output_price (PyInt 1000))
         else False)"

fun count_valid :: "snapshot \<Rightarrow> nat" where
  \<comment> \<open>the value of \<open>valid_models\<close> after the loop\<close>
  "count_valid [] = 0"
| "count_valid (item # rest) = (if valid_prices (snd item) then 1 else 0) + count_valid rest"

definition validate_pricing_data :: "snapshot \<Rightarrow> string \<Rightarrow> nat \<Rightarrow> bool" where
  "validate_pricing_data pricing_dict provider existing_count =
     (if pricing_dict = [] then False
      else if length pricing_dict < 3 then False
      else if rat_of_nat (count_valid pricing_dict) < rat_of_nat (length pricing_dict) * (8 / 10)
      then False
      else True)"

section \<open>The orchestrator\<close>

text \<open>
  \<open>main\<close> reads the command line, the snapshot file, two web pages, the terminal and
  the clock, and may write the snapshot file.  All of it is the environment of a run;
  the model returns the exit status and the content of the file after the run.  What
  is printed is not modelled.  The JSON codec and the text of a float belong to the
  interpreter and are taken from the environment too.
\<close>

datatype interrupt = EOFError | KeyboardInterrupt

record env =
  force :: bool
  pricing_file :: "string option"
  json_load :: "string \<Rightarrow> document option"
  json_dump :: "document \<Rightarrow> string"
  float_str :: "rat \<Rightarrow> string"
  fetch_openai :: "snapshot option"
  fetch_anthropic :: "snapshot option"
  user_input :: "interrupt + string"
  utc_now :: string
  write_failure :: "string option option"

text \<open>
  \<^item> \<open>force\<close>: the switch \<open>--force\<close>;
  \<^item> \<open>pricing_file\<close>: the content of \<open>PRICING_FILE\<close> before the run, \<open>None\<close> when it
    does not exist;
  \<^item> \<open>json_load\<close>: \<open>json.load\<close> on the file, \<open>None\<close> when it raises (or reads \<open>null\<close>);
    a file whose top-level value is not an object is outside the typed model;
  \<^item> \<open>fetch_openai\<close>, \<open>fetch_anthropic\<close>: what \<open>fetch_openai_pricing()\<close> and
    \<open>fetch_anthropic_pricing()\<close> return;
  \<^item> \<open>user_input\<close>: the line \<open>input\<close> reads, or the exception it raises;
  \<^item> \<open>utc_now\<close>: \<open>datetime.now(timezone.utc).isoformat()\<close>;
  \<^item> \<open>write_failure\<close>: \<open>None\<close> when creating the directory and writing the file
    succeed, \<open>Some left\<close> when one of them raises and leaves the file as \<open>left\<close>.
\<close>

definition load_existing_pricing :: "env \<Rightarrow> document option" where
  \<comment> \<open>script, lines 281-289; scripts, lines 211-219\<close>
  "load_existing_pricing e = (case pricing_file e of None \<Rightarrow> None | Some text \<Rightarrow> json_load e text)"

definition save_pricing :: "env \<Rightarrow> document \<Rightarrow> bool \<times> string option" where
  \<comment> \<open>script, lines 393-402; scripts, lines 276-285: the value returned and the file
      afterwards\<close>
  "save_pricing e pricing_data =
     (case write_failure e of
        None \<Rightarrow> (True, Some (json_dump e pricing_data))
      | Some left \<Rightarrow> (False, left))"

definition existing_models_of :: "document option \<Rightarrow> snapshot dict" where
  \<comment> \<open>script, line 433: \<open>existing_pricing.get("models", {}) if existing_pricing else {}\<close>\<close>
  "existing_models_of existing_pricing =
     (case existing_pricing of
        None \<Rightarrow> []
      | Some doc \<Rightarrow> if doc \<noteq> empty_document then get_models doc else [])"

definition validated :: "snapshot option \<Rightarrow> string \<Rightarrow> string \<Rightarrow> snapshot dict \<Rightarrow> snapshot option" where
  \<comment> \<open>script, lines 436-447: fetched data that fails validation is dropped\<close>
  "validated pricing label key existing_models =
     (case pricing of
        None \<Rightarrow> None
      | Some d \<Rightarrow>
          if d \<noteq> [] then
            (let existing_count =
                   length (case map_of existing_models key of None \<Rightarrow> [] | Some s \<Rightarrow> s)
             in if \<not> validate_pricing_data d label existing_count then None else Some d)
          else Some d)"

definition merge_provider ::
  "string \<Rightarrow> snapshot option \<Rightarrow> document option \<Rightarrow> snapshot dict \<Rightarrow> snapshot dict" where
  \<comment> \<open>script, lines 470-480, and scripts, lines 336-346, once for each provider:
      \<open>if pricing: new_pricing["models"][key] = pricing\<close>,
      \<open>elif existing_pricing and key in existing_pricing.get("models", {}):
      new_pricing["models"][key] = existing_pricing["models"][key]\<close>\<close>
  "merge_provider key pricing existing_pricing new_models =
     (if truthy_snapshot pricing then
        (case pricing of None \<Rightarrow> new_models | Some d \<Rightarrow> dict_set new_models key d)
      else if truthy_document existing_pricing then
        (case map_of (existing_models_of existing_pricing) key of
           None \<Rightarrow> new_models
         | Some s \<Rightarrow> dict_set new_models key s)
      else new_models)"

definition build_new_pricing ::
  "env \<Rightarrow> string \<Rightarrow> snapshot option \<Rightarrow> snapshot option \<Rightarrow> document option \<Rightarrow> document" where
  \<comment> \<open>script, lines 460-480; scripts, lines 326-346\<close>
  "build_new_pricing e openai_url openai_pricing anthropic_pricing existing_pricing =
     \<lparr>last_updated = Some (utc_now e),
      sources = Some [(''openai'', openai_url),
                      (''anthropic'', ''https://docs.anthropic.com/en/docs/about-claude/models'')],
      models = Some (merge_provider ''anthropic'' anthropic_pricing existing_pricing
                      (merge_provider ''openai'' openai_pricing existing_pricing []))\<rparr>"

definition save_and_return :: "env \<Rightarrow> document \<Rightarrow> nat \<times> string option" where
  \<comment> \<open>\<open>if save_pricing(new_pricing): return 0\<close>, \<open>else: return 1\<close>\<close>
  "save_and_return e new_pricing =
     (case save_pricing e new_pricing of (saved, left) \<Rightarrow> (if saved then 0 else 1, left))"

definition answers_yes :: "string \<Rightarrow> bool" where
  \<comment> \<open>\<open>response.strip().lower() == 'y'\<close>\<close>
  "answers_yes response = (lower (strip response) = ''y'')"

subsection \<open>\<open>src/script/fetch_pricing.py\<close>\<close>

definition script_openai :: "env \<Rightarrow> snapshot option" where
  "script_openai e =
     validated (fetch_openai e) ''OpenAI'' ''openai'' (existing_models_of (load_existing_pricing e))"

definition script_anthropic :: "env \<Rightarrow> snapshot option" where
  "script_anthropic e =
     validated (fetch_anthropic e) ''Anthropic'' ''anthropic''
       (existing_models_of (load_existing_pricing e))"

definition script_new_pricing :: "env \<Rightarrow> document" where
  "script_new_pricing e =
     build_new_pricing e ''https://platform.openai.com/docs/pricing''
       (script_openai e) (script_anthropic e) (load_existing_pricing e)"

definition main_script :: "env \<Rightarrow> nat \<times> string option" where
  "main_script e =
     (let existing_pricing = load_existing_pricing e;
          openai_pricing = script_openai e;
          anthropic_pricing = script_anthropic e
      in if \<not> truthy_snapshot openai_pricing \<and> \<not> truthy_snapshot anthropic_pricing then
           (if truthy_document existing_pricing then (0, pricing_file e) else (1, pricing_file e))
         else
           (let new_pricing = script_new_pricing e;
                (has_changes, changes) = compare_pricing (float_str e) existing_pricing new_pricing
            in if has_changes then
                 (let should_save = force e;
                      should_save =
                        (if \<not> should_save then
                           (case user_input e of
                              Inr response \<Rightarrow> answers_yes response
                            | Inl _ \<Rightarrow> False)
                         else should_save)
                  in if should_save then save_and_return e new_pricing else (0, pricing_file e))
               else if force e then save_and_return e new_pricing
               else (0, pricing_file e)))"

subsection \<open>\<open>src/scripts/fetch_pricing.py\<close>\<close>

text \<open>
  This copy has no validation step, and calls \<open>input\<close> outside any \<open>try\<close>: an
  \<open>EOFError\<close> or \<open>KeyboardInterrupt\<close> leaves \<open>main\<close> as an uncaught exception.
\<close>

definition scripts_new_pricing :: "env \<Rightarrow> document" where
  "scripts_new_pricing e =
     build_new_pricing e ''https://openai.com/api/pricing/''
       (fetch_openai e) (fetch_anthropic e) (load_existing_pricing e)"

definition main_scripts :: "env \<Rightarrow> (interrupt + nat) \<times> string option" where
  "main_scripts e =
     (let existing_pricing = load_existing_pricing e;
          openai_pricing = fetch_openai e;
          anthropic_pricing = fetch_anthropic e
      in if \<not> truthy_snapshot openai_pricing \<and> \<not> truthy_snapshot anthropic_pricing then
           (if truthy_document existing_pricing then (Inr 0, pricing_file e) else (Inr 1, pricing_file e))
         else
           (let new_pricing = scripts_new_pricing e;
                (has_changes, changes) = compare_pricing (float_str e) existing_pricing new_pricing
            in if has_changes then
                 (case (if force e then Inr True
                        else (case user_input e of
                                Inl raised \<Rightarrow> Inl raised
                              | Inr response \<Rightarrow> Inr (answers_yes response \<or> True))) of
                    Inl raised \<Rightarrow> (Inl raised, pricing_file e)
                  | Inr confirmed \<Rightarrow>
                      if confirmed then
                        (case save_and_return e new_pricing of (status, left) \<Rightarrow> (Inr status, left))
                      else (Inr 0, pricing_file e))
               else if force e then
                 (case save_and_return e new_pricing of (status, left) \<Rightarrow> (Inr status, left))
               else (Inr 0, pricing_file e)))"

subsection \<open>The cases of a run\<close>

text \<open>
  Names for the cases the properties of \<open>main\<close> speak about: no provider yielded
  usable data (the test of both copies); the differ reports changes; the user answers
  yes; a save is attempted.
\<close>

definition no_usable_data :: "snapshot option \<Rightarrow> snapshot option \<Rightarrow> bool" where
  "no_usable_data openai_pricing anthropic_pricing =
     (\<not> truthy_snapshot openai_pricing \<and> \<not> truthy_snapshot anthropic_pricing)"

definition has_changes :: "env \<Rightarrow> document \<Rightarrow> bool" where
  "has_changes e new_pricing =
     fst (compare_pricing (float_str e) (load_existing_pricing e) new_pricing)"

definition confirmed :: "env \<Rightarrow> bool" where
  "confirmed e = (case user_input e of Inr response \<Rightarrow> answers_yes response | Inl _ \<Rightarrow> False)"

definition script_saves :: "env \<Rightarrow> bool" where
  "script_saves e = (force e \<or> (has_changes e (script_new_pricing e) \<and> confirmed e))"

definition scripts_saves :: "env \<Rightarrow> bool" where
  "scripts_saves e = (force e \<or> has_changes e (scripts_new_pricing e))"

section \<open>Valid documents\<close>

text \<open>
  The data model of the specification: a valid pricing document has all three keys;
  every price record has a numeric \<open>input\<close> and \<open>output\<close> strictly between 0 and 1000 and
  a string \<open>description\<close>.  The keys of every dict are distinct, as in any Python dict.
\<close>

definition price_in_range :: "pyval \<Rightarrow> bool" where
  "price_in_range v = (case num_val v of None \<Rightarrow> False | Some x \<Rightarrow> 0 < x \<and> x < 1000)"

definition record_in_range :: "string \<times> model_data \<Rightarrow> bool" where
  \<comment> \<open>the invariant of a price record, for an item of a snapshot\<close>
  "record_in_range item =
     (price_in_range (get_field (snd item) ''input'')
      \<and> price_in_range (get_field (snd item) ''output''))"

definition valid_record :: "model_data \<Rightarrow> bool" where
  "valid_record r =
     (dict_ok r \<and> price_in_range (get_field r ''input'') \<and> price_in_range (get_field r ''output'')
      \<and> (case get_field r ''description'' of PyStr _ \<Rightarrow> True | _ \<Rightarrow> False))"

definition valid_snapshot :: "snapshot \<Rightarrow> bool" where
  "valid_snapshot s = (dict_ok s \<and> list_all (\<lambda>item. valid_record (snd item)) s)"

definition valid_document :: "document \<Rightarrow> bool" where
  "valid_document doc =
     (last_updated doc \<noteq> None
      \<and> (case sources doc of None \<Rightarrow> False | Some src \<Rightarrow> dict_ok src)
      \<and> (case models doc of None \<Rightarrow> False
          | Some m \<Rightarrow> dict_ok m \<and> list_all (\<lambda>item. valid_snapshot (snd item)) m))"

text \<open>
  What the differ needs of a document compared with itself is less: distinct keys, and
  no price that is NaN.
\<close>

definition no_nan_prices :: "model_data \<Rightarrow> bool" where
  "no_nan_prices r = (get_field r ''input'' \<noteq> PyNaN \<and> get_field r ''output'' \<noteq> PyNaN)"

definition comparable_snapshot :: "snapshot \<Rightarrow> bool" where
  "comparable_snapshot s = (dict_ok s \<and> list_all (\<lambda>item. no_nan_prices (snd item)) s)"

definition comparable_models :: "snapshot dict \<Rightarrow> bool" where
  "comparable_models m = (dict_ok m \<and> list_all (\<lambda>item. comparable_snapshot (snd item)) m)"

section \<open>Example data\<close>

definition price_record :: "pyval \<Rightarrow> pyval \<Rightarrow> string \<Rightarrow> model_data" where
  "price_record input_price output_price text =
     [(''input'', input_price), (''output'', output_price), (''description'', PyStr text)]"

definition example_snapshot :: snapshot where
  "example_snapshot =
     [(''gpt-4'', price_record (PyFloat 10) (PyFloat 30) ''GPT-4''),
      (''gpt-4o'', price_record (PyFloat (5 / 2)) (PyFloat 10) ''GPT-4O''),
      (''o1'', price_record (PyFloat 15) (PyFloat 60) ''O1'')]"

definition garbled_snapshot :: snapshot where
  \<comment> \<open>five records, the last with an input price of 5000\<close>
  "garbled_snapshot =
     example_snapshot @
     [(''o1-mini'', price_record (PyFloat 3) (PyFloat 12) ''O1-MINI''),
      (''gpt-3.5-turbo'', price_record (PyFloat 5000) (PyFloat (3 / 2)) ''GPT-3.5-TURBO'')]"

definition example_document :: "string \<Rightarrow> document" where
  \<comment> \<open>a valid document, saved at the given time\<close>
  "example_document saved_at =
     \<lparr>last_updated = Some saved_at,
      sources = Some [(''openai'', ''https://openai.com/api/pricing/'')],
      models = Some [(''openai'', example_snapshot)]\<rparr>"

definition scenario_document :: "int \<Rightarrow> document" where
  \<comment> \<open>provider \<open>openai\<close> with the one model \<open>gpt-4\<close>, input 10 and the given output\<close>
  "scenario_document output_price =
     \<lparr>last_updated = Some ''2025-01-01T00:00:00+00:00'',
      sources = Some [(''openai'', ''https://openai.com/api/pricing/'')],
      models = Some [(''openai'',
                 [(''gpt-4'', price_record (PyInt 10) (PyInt output_price) ''GPT-4'')])]\<rparr>"

definition example_env ::
  "(document \<Rightarrow> string) \<Rightarrow> bool \<Rightarrow> string option \<Rightarrow> snapshot option \<Rightarrow> interrupt + string
     \<Rightarrow> string option option \<Rightarrow> env" where
  \<comment> \<open>a run in which only OpenAI may yield data, and the snapshot file, when there is
      one, decodes to \<open>example_document\<close>\<close>
  "example_env encode forced content fetched answer failure =
     \<lparr>force = forced,
      pricing_file = content,
      json_load = (\<lambda>text. Some (example_document ''2025-01-01T00:00:00+00:00'')),
      json_dump = encode,
      float_str = (\<lambda>r. []),
      fetch_openai = fetched,
      fetch_anthropic = None,
      user_input = answer,
      utc_now = ''2025-06-30T12:00:00+00:00'',
      write_failure = failure\<rparr>"

definition unusable_file_env :: "document option \<Rightarrow> env" where
  \<comment> \<open>a run in which both fetches fail and the snapshot file exists, holding the text
      \<open>{}\<close>; \<open>loaded\<close> is what \<open>json.load\<close> makes of the file\<close>
  "unusable_file_env loaded =
     \<lparr>force = False,
      pricing_file = Some ''{}'',
      json_load = (\<lambda>text. loaded),
      json_dump = (\<lambda>doc. []),
      float_str = (\<lambda>r. []),
      fetch_openai = None,
      fetch_anthropic = None,
      user_input = Inl EOFError,
      utc_now = ''2025-06-30T12:00:00+00:00'',
      write_failure = None\<rparr>"


section \<open>Properties of the differ\<close>

text \<open>
  C6.  With no old document (\<open>None\<close>), the differ reports a change and exactly the one
  line "Initial pricing data created", whatever the new document holds: no other rule
  contributes.
\<close>

theorem compare_pricing_initial:
  "compare_pricing float_repr None new = (True, [''Initial pricing data created''])"
  by (simp add: compare_pricing_def)

text \<open>
  C10.  An old document that is present but empty (the dict \<open>{}\<close>) is treated exactly
  as the missing one: one change, "Initial pricing data created", and no
  "New provider" line.
\<close>

theorem compare_pricing_empty_old:
  "compare_pricing float_repr (Some empty_document) new = compare_pricing float_repr None new
   \<and> compare_pricing float_repr (Some empty_document) new
       = (True, [''Initial pricing data created''])"
  by (simp add: compare_pricing_def)

subsection \<open>A document compared with itself\<close>

lemma py_eq_refl: "v \<noteq> PyNaN \<Longrightarrow> py_eq v v"
  by (cases v) (simp_all add: py_eq_def num_val_def)

lemma price_in_range_not_nan: "price_in_range v \<Longrightarrow> v \<noteq> PyNaN"
  by (auto simp: price_in_range_def num_val_def)

lemma valid_record_no_nan: "valid_record r \<Longrightarrow> no_nan_prices r"
  by (simp add: valid_record_def no_nan_prices_def price_in_range_not_nan)

lemma valid_snapshot_comparable: "valid_snapshot s \<Longrightarrow> comparable_snapshot s"
  by (auto simp: valid_snapshot_def comparable_snapshot_def list_all_iff valid_record_no_nan)

lemma valid_document_comparable:
  "valid_document doc \<Longrightarrow> \<exists>m. models doc = Some m \<and> comparable_models m"
  by (auto simp: valid_document_def comparable_models_def list_all_iff
      valid_snapshot_comparable split: option.splits)

lemma dict_lookup_member: "dict_ok d \<Longrightarrow> (k, v) \<in> set d \<Longrightarrow> map_of d k = Some v"
  by (simp add: dict_ok_def)

lemma dict_has_key: "k \<in> fst ` set d \<Longrightarrow> dict_has d k"
  by (simp add: dict_has_def map_of_eq_None_iff)

lemma no_missing_keys: "filter (\<lambda>k. \<not> dict_has d k) (map fst d) = []"
  by (simp add: filter_empty_conv dict_has_key)

lemma removed_models_same: "removed_models provider s s = []"
  by (simp add: removed_models_def no_missing_keys)

lemma model_changes_same:
  assumes "map_of s k = Some r" and "no_nan_prices r"
  shows "model_changes float_repr provider s (k, r) = []"
  using assms by (simp add: model_changes_def no_nan_prices_def py_eq_refl)

lemma snapshot_changes_same:
  assumes "comparable_snapshot s"
  shows "concat (map (model_changes float_repr provider s) s) = []"
proof -
  have "model_changes float_repr provider s item = []" if "item \<in> set s" for item
  proof -
    obtain k r where item: "item = (k, r)" by (cases item)
    from assms that item have "map_of s k = Some r" and "no_nan_prices r"
      by (auto simp: comparable_snapshot_def list_all_iff dict_lookup_member)
    then show ?thesis unfolding item by (rule model_changes_same)
  qed
  then show ?thesis by simp
qed

lemma provider_changes_same:
  assumes "map_of m provider = Some s" and "comparable_snapshot s"
  shows "provider_changes float_repr m (provider, s) = []"
  using assms by (simp add: provider_changes_def snapshot_changes_same removed_models_same)

lemma models_changes_same:
  assumes "comparable_models m"
  shows "concat (map (provider_changes float_repr m) m) = []"
proof -
  have "provider_changes float_repr m item = []" if "item \<in> set m" for item
  proof -
    obtain p s where item: "item = (p, s)" by (cases item)
    from assms that item have "map_of m p = Some s" and "comparable_snapshot s"
      by (auto simp: comparable_models_def list_all_iff dict_lookup_member)
    then show ?thesis unfolding item by (rule provider_changes_same)
  qed
  then show ?thesis by simp
qed

lemma compare_pricing_same_models:
  assumes "models old_doc = Some m" and "comparable_models m" and "models new = Some m"
  shows "compare_pricing float_repr (Some old_doc) new = (False, [])"
proof -
  from assms(1) have nonempty: "old_doc \<noteq> empty_document"
    by (auto simp: empty_document_def)
  from assms(1,3) have old_m: "get_models old_doc = m" and new_m: "get_models new = m"
    by (simp_all add: get_models_def)
  have inner: "concat (map (provider_changes float_repr m) m) = []"
    using assms(2) by (rule models_changes_same)
  have "compare_pricing float_repr (Some old_doc) new
      = (let changes = map (\<lambda>provider. ''New provider: '' @ provider)
                         (filter (\<lambda>provider. \<not> dict_has m provider) (map fst m))
                       @ map (\<lambda>provider. ''Removed provider: '' @ provider)
                         (filter (\<lambda>provider. \<not> dict_has m provider) (map fst m))
                       @ concat (map (provider_changes float_repr m) m)
         in (length changes > 0, changes))"
    using nonempty by (simp add: compare_pricing_def old_m new_m)
  also have "\<dots> = (False, [])"
    unfolding no_missing_keys inner by simp
  finally show ?thesis .
qed

text \<open>
  C5.  A valid pricing document compared with itself is unchanged: the flag is false
  and the list of changes is empty.
\<close>

theorem compare_pricing_identical:
  assumes "valid_document X"
  shows "compare_pricing float_repr (Some X) X = (False, [])"
proof -
  from assms obtain m where "models X = Some m" and "comparable_models m"
    using valid_document_comparable by blast
  then show ?thesis by (simp add: compare_pricing_same_models)
qed

lemma example_snapshot_ok: "valid_snapshot example_snapshot"
  by (simp add: valid_snapshot_def valid_record_def dict_ok_def example_snapshot_def
      price_record_def get_field_def price_in_range_def num_val_def)

lemma example_document_valid: "valid_document (example_document t)"
  by (simp add: valid_document_def example_document_def dict_ok_def example_snapshot_ok)

theorem compare_pricing_identical_witness:
  "valid_document (example_document ''2025-01-01T00:00:00+00:00'')
   \<and> compare_pricing (\<lambda>r. []) (Some (example_document ''2025-01-01T00:00:00+00:00''))
         (example_document ''2025-01-01T00:00:00+00:00'') = (False, [])"
  using compare_pricing_identical [OF example_document_valid] example_document_valid
  by simp

text \<open>
  Validity is needed: a price that is NaN differs from itself, and a document holding
  one is reported as changed when compared with itself.
\<close>

lemma compare_pricing_nan_price:
  "compare_pricing float_repr
     (Some \<lparr>last_updated = None, sources = None,
            models = Some [(''openai'', [(''gpt-4'', [(''input'', PyNaN), (''output'', PyInt 30)])])]\<rparr>)
     \<lparr>last_updated = None, sources = None,
      models = Some [(''openai'', [(''gpt-4'', [(''input'', PyNaN), (''output'', PyInt 30)])])]\<rparr>
   = (True, [''Price change: openai/gpt-4 input $nan '' @ [CHR 0xE2, CHR 0x86, CHR 0x92]
               @ '' $nan''])"
  by (simp add: compare_pricing_def empty_document_def get_models_def dict_has_def
      provider_changes_def model_changes_def removed_models_def get_field_def py_eq_def
      num_val_def price_change_def py_str_def arrow_def)

subsection \<open>One price changed\<close>

lemma dict_set_keys: "map_of d k = Some v \<Longrightarrow> map fst (dict_set d k v') = map fst d"
  by (induction d) (auto split: if_splits)

lemma map_of_dict_set: "map_of (dict_set d k v) = (map_of d)(k \<mapsto> v)"
  by (induction d) (auto simp: fun_eq_iff)

lemma dict_has_dict_set: "dict_has (dict_set d k v) k' = (k' = k \<or> dict_has d k')"
  by (simp add: dict_has_def map_of_dict_set)

lemma concat_map_dict_set:
  assumes "dict_ok d" and "map_of d k = Some v"
    and "\<And>item. item \<in> set d \<Longrightarrow> fst item \<noteq> k \<Longrightarrow> g item = []"
  shows "concat (map g (dict_set d k v')) = g (k, v')"
  using assms
proof (induction d)
  case Nil
  then show ?case by simp
next
  case (Cons p d)
  obtain k0 v0 where p: "p = (k0, v0)" by (cases p)
  show ?case
  proof (cases "k0 = k")
    case True
    from Cons.prems(1) p True have "k \<notin> fst ` set d"
      by (simp add: dict_ok_def)
    then have "g item = []" if "item \<in> set d" for item
      using that Cons.prems(3) by (metis image_eqI list.set_intros(2))
    then have "concat (map g d) = []" by simp
    with p True show ?thesis by simp
  next
    case False
    with p Cons.prems(3) have first: "g (k0, v0) = []" by simp
    from Cons.prems(1) have ok: "dict_ok d" by (simp add: dict_ok_def)
    from Cons.prems(2) p False have look: "map_of d k = Some v" by simp
    from Cons.IH [OF ok look] Cons.prems(3)
    have "concat (map g (dict_set d k v')) = g (k, v')" by simp
    with p False first show ?thesis by simp
  qed
qed

lemma same_keys_nothing_new:
  assumes "map_of d k = Some v"
  shows "filter (\<lambda>key. \<not> dict_has d key) (map fst (dict_set d k v')) = []"
    and "filter (\<lambda>key. \<not> dict_has (dict_set d k v') key) (map fst d) = []"
proof -
  from assms show "filter (\<lambda>key. \<not> dict_has d key) (map fst (dict_set d k v')) = []"
    by (simp only: dict_set_keys no_missing_keys)
  show "filter (\<lambda>key. \<not> dict_has (dict_set d k v') key) (map fst d) = []"
    by (simp add: filter_empty_conv dict_has_dict_set dict_has_key)
qed

lemma str_int_30: "str_int 30 = ''30''"
  by (simp add: str_int_def str_nat.simps digit_char_def)

lemma str_int_25: "str_int 25 = ''25''"
  by (simp add: str_int_def str_nat.simps digit_char_def)

lemma output_line:
  "price_change float_repr ''openai'' ''gpt-4'' ''output'' (PyInt 30) (PyInt 25)
     = ''Price change: openai/gpt-4 output $30 '' @ [CHR 0xE2, CHR 0x86, CHR 0x92] @ '' $25''"
  by (simp add: price_change_def py_str_def str_int_30 str_int_25 arrow_def)

lemma changed_model:
  assumes "get_field r ''input'' = PyInt 10" and "get_field r ''output'' = PyInt 30"
    and "get_field r' ''input'' = PyInt 10" and "get_field r' ''output'' = PyInt 25"
    and "map_of s ''gpt-4'' = Some r"
  shows "model_changes float_repr ''openai'' s (''gpt-4'', r')
     = [''Price change: openai/gpt-4 output $30 '' @ [CHR 0xE2, CHR 0x86, CHR 0x92] @ '' $25'']"
  using assms by (simp add: model_changes_def py_eq_def num_val_def output_line)

lemma changed_snapshot:
  assumes "comparable_snapshot s" and "map_of s ''gpt-4'' = Some r"
    and "get_field r ''input'' = PyInt 10" and "get_field r ''output'' = PyInt 30"
    and "get_field r' ''input'' = PyInt 10" and "get_field r' ''output'' = PyInt 25"
    and "map_of m ''openai'' = Some s"
  shows "provider_changes float_repr m (''openai'', dict_set s ''gpt-4'' r')
     = [''Price change: openai/gpt-4 output $30 '' @ [CHR 0xE2, CHR 0x86, CHR 0x92] @ '' $25'']"
proof -
  have others: "model_changes float_repr ''openai'' s item = []"
    if "item \<in> set s" and "fst item \<noteq> ''gpt-4''" for item
  proof -
    obtain k v where item: "item = (k, v)" by (cases item)
    from assms(1) that(1) item have "map_of s k = Some v" and "no_nan_prices v"
      by (auto simp: comparable_snapshot_def list_all_iff dict_lookup_member)
    then show ?thesis unfolding item by (rule model_changes_same)
  qed
  from assms(1) have "dict_ok s" by (simp add: comparable_snapshot_def)
  then have "concat (map (model_changes float_repr ''openai'' s) (dict_set s ''gpt-4'' r'))
      = model_changes float_repr ''openai'' s (''gpt-4'', r')"
    using assms(2) others by (rule concat_map_dict_set)
  moreover have "removed_models ''openai'' s (dict_set s ''gpt-4'' r') = []"
    unfolding removed_models_def using same_keys_nothing_new(2) [OF assms(2)] by simp
  ultimately show ?thesis
    using assms(7) changed_model [OF assms(3-6) assms(2)]
    by (simp add: provider_changes_def)
qed

text \<open>
  C7.  The old document has provider \<open>openai\<close> with model \<open>gpt-4\<close> at input 10 and
  output 30; the new document is the old one with the record of that model replaced by
  one at input 10 and output 25 (whatever else the documents hold, and whatever their
  \<open>last_updated\<close> and \<open>sources\<close>).  The differ reports a change and exactly the one line
  "Price change: openai/gpt-4 output $30 -> $25", the arrow being U+2192 (here its three
  UTF-8 bytes).
\<close>

theorem compare_pricing_output_change:
  assumes "models old_doc = Some m" and "comparable_models m"
    and "map_of m ''openai'' = Some s" and "map_of s ''gpt-4'' = Some r"
    and "get_field r ''input'' = PyInt 10" and "get_field r ''output'' = PyInt 30"
    and "get_field r' ''input'' = PyInt 10" and "get_field r' ''output'' = PyInt 25"
    and "models new = Some (dict_set m ''openai'' (dict_set s ''gpt-4'' r'))"
  shows "compare_pricing float_repr (Some old_doc) new
     = (True, [''Price change: openai/gpt-4 output $30 '' @ [CHR 0xE2, CHR 0x86, CHR 0x92]
                 @ '' $25''])"
proof -
  let ?s' = "dict_set s ''gpt-4'' r'"
  let ?m' = "dict_set m ''openai'' ?s'"
  let ?line = "''Price change: openai/gpt-4 output $30 '' @ [CHR 0xE2, CHR 0x86, CHR 0x92]
                 @ '' $25''"
  from assms(1) have nonempty: "old_doc \<noteq> empty_document"
    by (auto simp: empty_document_def)
  from assms(1,9) have old_m: "get_models old_doc = m" and new_m: "get_models new = ?m'"
    by (simp_all add: get_models_def)
  from assms(2) have ok: "dict_ok m" by (simp add: comparable_models_def)
  from assms(3) have "(''openai'', s) \<in> set m" by (rule map_of_SomeD)
  with assms(2) have snap: "comparable_snapshot s"
    by (auto simp: comparable_models_def list_all_iff)
  have others: "provider_changes float_repr m item = []"
    if "item \<in> set m" and "fst item \<noteq> ''openai''" for item
  proof -
    obtain p t where item: "item = (p, t)" by (cases item)
    from assms(2) that(1) item have "map_of m p = Some t" and "comparable_snapshot t"
      by (auto simp: comparable_models_def list_all_iff dict_lookup_member)
    then show ?thesis unfolding item by (rule provider_changes_same)
  qed
  have "concat (map (provider_changes float_repr m) ?m')
      = provider_changes float_repr m (''openai'', ?s')"
    using ok assms(3) others by (rule concat_map_dict_set)
  also have "\<dots> = [?line]"
    using snap assms(4-8) assms(3) by (rule changed_snapshot)
  finally have inner: "concat (map (provider_changes float_repr m) ?m') = [?line]" .
  have "compare_pricing float_repr (Some old_doc) new
      = (let changes = map (\<lambda>provider. ''New provider: '' @ provider)
                         (filter (\<lambda>provider. \<not> dict_has m provider) (map fst ?m'))
                       @ map (\<lambda>provider. ''Removed provider: '' @ provider)
                         (filter (\<lambda>provider. \<not> dict_has ?m' provider) (map fst m))
                       @ concat (map (provider_changes float_repr m) ?m')
         in (length changes > 0, changes))"
    using nonempty by (simp add: compare_pricing_def old_m new_m Let_def)
  also have "\<dots> = (True, [?line])"
    unfolding same_keys_nothing_new [OF assms(3)] inner by simp
  finally show ?thesis .
qed

lemma scenario_models_ok:
  "comparable_models [(''openai'', [(''gpt-4'', price_record (PyInt 10) (PyInt 30) ''GPT-4'')])]"
  by (simp add: comparable_models_def comparable_snapshot_def dict_ok_def no_nan_prices_def
      price_record_def get_field_def)

theorem compare_pricing_output_change_witness:
  "compare_pricing (\<lambda>r. []) (Some (scenario_document 30)) (scenario_document 25)
     = (True, [''Price change: openai/gpt-4 output $30 '' @ [CHR 0xE2, CHR 0x86, CHR 0x92]
                 @ '' $25''])"
  using compare_pricing_output_change
    [of "scenario_document 30"
        "[(''openai'', [(''gpt-4'', price_record (PyInt 10) (PyInt 30) ''GPT-4'')])]"
        "[(''gpt-4'', price_record (PyInt 10) (PyInt 30) ''GPT-4'')]"
        "price_record (PyInt 10) (PyInt 30) ''GPT-4''"
        "price_record (PyInt 10) (PyInt 25) ''GPT-4''"
        "scenario_document 25" "\<lambda>r. []", OF _ scenario_models_ok]
  by (simp add: scenario_document_def price_record_def get_field_def)

subsection \<open>What the differ reads\<close>






section \<open>Properties of the OpenAI extractor\<close>

lemma lower_GPT4: "lower ''GPT-4'' = ''gpt-4''"
  by (simp add: lower_def lower_char_def)

lemma upper_gpt4: "upper ''gpt-4'' = ''GPT-4''"
  by (simp add: upper_def upper_char_def)

lemma scenario_model_name:
  "find_model_name [''GPT-4'', ''$10.00'', ''$30.00''] = Some ''gpt-4''"
  by (simp add: lower_GPT4 startswith_def)

lemma scenario_prices: "extract_prices [''GPT-4'', ''$10.00'', ''$30.00''] = [4, 10, 30]"
  by (simp add: price_match_def is_price_char_def py_float_def is_digit_def digits_val_def)

text \<open>
  C1.  The scenario of the specification expects, for the row
  \<open>["GPT-4", "$10.00", "$30.00"]\<close>, the record with input 10.0 and output 30.0, the
  prices being taken from the cells other than the model-name cell.  The price loop
  runs over every cell of the row, the model-name cell included, and the pattern
  finds the 4 of "GPT-4" first: the extractor stores input 4.0 and output 10.0.  The
  identifier and the description are as the scenario says.
\<close>

theorem parse_openai_pricing_scenario:
  "parse_openai_pricing [[[''GPT-4'', ''$10.00'', ''$30.00'']]]
     = Some [(''gpt-4'', [(''input'', PyFloat 4), (''output'', PyFloat 10),
                          (''description'', PyStr ''GPT-4'')])]"
  by (simp add: parse_openai_pricing_def parse_row_def scenario_model_name scenario_prices
      upper_gpt4 del: find_model_name.simps extract_prices.simps)

section \<open>Properties of the validator\<close>

lemma valid_prices_iff: "valid_prices (snd item) = record_in_range item"
proof -
  have "(is_number v \<and> num_lt (PyInt 0) v \<and> num_lt v (PyInt 1000)) = price_in_range v" for v
    by (cases v) (auto simp: is_number_def num_lt_def num_val_def price_in_range_def)
  then show ?thesis
    by (auto simp: valid_prices_def record_in_range_def Let_def)
qed

lemma count_valid_filter: "count_valid s = length (filter record_in_range s)"
  by (induction s) (simp_all add: valid_prices_iff)

lemma four_fifths:
  "\<not> rat_of_nat c < rat_of_nat n * (8 / 10) \<Longrightarrow> 4 * n \<le> 5 * c"
proof -
  assume "\<not> rat_of_nat c < rat_of_nat n * (8 / 10)"
  then have "rat_of_nat (4 * n) \<le> rat_of_nat (5 * c)" by simp
  then show ?thesis by (simp only: of_nat_le_iff)
qed

lemma example_snapshot_in_range: "filter record_in_range example_snapshot = example_snapshot"
  by (simp add: example_snapshot_def record_in_range_def price_record_def get_field_def
      price_in_range_def num_val_def)

lemma example_snapshot_valid: "validate_pricing_data example_snapshot label n"
  unfolding validate_pricing_data_def count_valid_filter example_snapshot_in_range
  by (simp add: example_snapshot_def)

lemma garbled_in_range: "filter record_in_range garbled_snapshot
   = example_snapshot @ [(''o1-mini'', price_record (PyFloat 3) (PyFloat 12) ''O1-MINI'')]"
  by (simp add: garbled_snapshot_def example_snapshot_in_range)
     (simp add: record_in_range_def price_record_def get_field_def
      price_in_range_def num_val_def)

lemma filter_keeps_all:
  "length (filter P xs) = length xs \<Longrightarrow> list_all P xs"
proof (induction xs)
  case Nil
  then show ?case by simp
next
  case (Cons x xs)
  have le: "length (filter P xs) \<le> length xs" by simp
  show ?case
  proof (cases "P x")
    case True
    with Cons show ?thesis by simp
  next
    case False
    with Cons.prems have "length (filter P xs) = Suc (length xs)" by simp
    with le show ?thesis by simp
  qed
qed

text \<open>
  C2 as stated fails: the validator accepts a snapshot as soon as 80 percent of its
  records are in range.  Of the five records of \<open>garbled_snapshot\<close> four are in range
  and one has the input price 5000; the snapshot is accepted.
\<close>

theorem validate_accepts_out_of_range:
  "validate_pricing_data garbled_snapshot ''OpenAI'' 0
   \<and> \<not> list_all record_in_range garbled_snapshot"
proof
  show "validate_pricing_data garbled_snapshot ''OpenAI'' 0"
    unfolding validate_pricing_data_def count_valid_filter garbled_in_range
    by (simp add: garbled_snapshot_def example_snapshot_def)
  show "\<not> list_all record_in_range garbled_snapshot"
    by (simp add: garbled_snapshot_def record_in_range_def price_record_def get_field_def
      price_in_range_def num_val_def)
qed

text \<open>
  C2, amended.  A snapshot the validator accepts has at least three records, and at
  least four fifths of its records have a numeric \<open>input\<close> and \<open>output\<close> strictly between
  0 and 1000; when it has fewer than five records, every one of them has.
\<close>

theorem validate_pricing_data_accepts:
  assumes "validate_pricing_data pricing_dict provider existing_count"
  shows "3 \<le> length pricing_dict
       \<and> 4 * length pricing_dict \<le> 5 * length (filter record_in_range pricing_dict)
       \<and> (length pricing_dict < 5 \<longrightarrow> list_all record_in_range pricing_dict)"
proof -
  let ?n = "length pricing_dict" and ?c = "length (filter record_in_range pricing_dict)"
  from assms have n3: "3 \<le> ?n"
    by (simp add: validate_pricing_data_def split: if_splits)
  from assms have "\<not> rat_of_nat ?c < rat_of_nat ?n * (8 / 10)"
    by (simp add: validate_pricing_data_def count_valid_filter split: if_splits)
  then have frac: "4 * ?n \<le> 5 * ?c" by (rule four_fifths)
  have "list_all record_in_range pricing_dict" if "?n < 5"
  proof -
    have "?c \<le> ?n" by simp
    with frac that have "?c = ?n" by arith
    then show ?thesis by (rule filter_keeps_all)
  qed
  with n3 frac show ?thesis by blast
qed

theorem validate_pricing_data_accepts_witness:
  "validate_pricing_data example_snapshot ''OpenAI'' 0
   \<and> 3 \<le> length example_snapshot
   \<and> 4 * length example_snapshot \<le> 5 * length (filter record_in_range example_snapshot)
   \<and> list_all record_in_range example_snapshot"
proof -
  have len: "length example_snapshot < 5" by (simp add: example_snapshot_def)
  have ok: "validate_pricing_data example_snapshot ''OpenAI'' 0"
    by (rule example_snapshot_valid)
  from validate_pricing_data_accepts [OF ok] len ok show ?thesis by blast
qed

section \<open>Properties of the orchestrator\<close>

text \<open>
  The exit status and the file after a run, for each copy of \<open>main\<close>, by cases.
\<close>

lemma main_script_status:
  "fst (main_script e) =
     (if no_usable_data (script_openai e) (script_anthropic e) then
        (if truthy_document (load_existing_pricing e) then 0 else 1)
      else if script_saves e \<and> write_failure e \<noteq> None then 1 else 0)"
  by (auto simp: main_script_def no_usable_data_def script_saves_def has_changes_def
      confirmed_def save_and_return_def save_pricing_def Let_def
      split: prod.splits sum.splits option.splits)

lemma main_script_file:
  "snd (main_script e) =
     (if \<not> no_usable_data (script_openai e) (script_anthropic e) \<and> script_saves e then
        (case write_failure e of
           None \<Rightarrow> Some (json_dump e (script_new_pricing e))
         | Some left \<Rightarrow> left)
      else pricing_file e)"
  by (auto simp: main_script_def no_usable_data_def script_saves_def has_changes_def
      confirmed_def save_and_return_def save_pricing_def Let_def
      split: prod.splits sum.splits option.splits)

lemma main_scripts_status:
  assumes "user_input e = Inr response"
  shows "fst (main_scripts e) =
     Inr (if no_usable_data (fetch_openai e) (fetch_anthropic e) then
            (if truthy_document (load_existing_pricing e) then 0 else 1)
          else if scripts_saves e \<and> write_failure e \<noteq> None then 1 else 0)"
  using assms
  by (auto simp: main_scripts_def no_usable_data_def scripts_saves_def has_changes_def
      save_and_return_def save_pricing_def Let_def
      split: prod.splits sum.splits option.splits)

lemma main_scripts_file:
  assumes "user_input e = Inr response"
  shows "snd (main_scripts e) =
     (if \<not> no_usable_data (fetch_openai e) (fetch_anthropic e) \<and> scripts_saves e then
        (case write_failure e of
           None \<Rightarrow> Some (json_dump e (scripts_new_pricing e))
         | Some left \<Rightarrow> left)
      else pricing_file e)"
  using assms
  by (auto simp: main_scripts_def no_usable_data_def scripts_saves_def has_changes_def
      save_and_return_def save_pricing_def Let_def
      split: prod.splits sum.splits option.splits)

lemma validated_keeps_unusable:
  "\<not> truthy_snapshot pricing \<Longrightarrow> \<not> truthy_snapshot (validated pricing label key existing_models)"
  by (auto simp: validated_def truthy_snapshot_def split: option.splits)

text \<open>
  In \<open>src/script\<close> the save is gated: when changes are reported, \<open>--force\<close> is not
  given and the answer is not yes (or cannot be read), the file is left as it was.
\<close>

lemma main_script_save_gated:
  assumes "has_changes e (script_new_pricing e)" and "\<not> force e" and "\<not> confirmed e"
  shows "main_script e
     = (if no_usable_data (script_openai e) (script_anthropic e)
           \<and> \<not> truthy_document (load_existing_pricing e) then 1 else 0,
        pricing_file e)"
  using assms main_script_status [of e] main_script_file [of e]
  by (cases "main_script e") (simp add: script_saves_def)

subsection \<open>Example runs\<close>

lemma example_env_loads_nothing:
  "load_existing_pricing (example_env encode forced None fetched answer failure) = None"
  by (simp add: load_existing_pricing_def example_env_def)

lemma example_env_loads:
  "load_existing_pricing (example_env encode forced (Some text) fetched answer failure)
     = Some (example_document ''2025-01-01T00:00:00+00:00'')"
  by (simp add: load_existing_pricing_def example_env_def)

lemma example_snapshot_truthy: "truthy_snapshot (Some example_snapshot)"
  by (simp add: truthy_snapshot_def example_snapshot_def)

lemma example_env_openai:
  "script_openai (example_env encode forced content (Some example_snapshot) answer failure)
     = Some example_snapshot"
proof -
  have "example_snapshot \<noteq> []" by (simp add: example_snapshot_def)
  then show ?thesis
    by (simp add: script_openai_def validated_def example_env_def example_snapshot_valid)
qed

lemma example_env_anthropic:
  "script_anthropic (example_env encode forced content fetched answer failure) = None"
  by (simp add: script_anthropic_def validated_def example_env_def)

lemma example_env_usable:
  "\<not> no_usable_data
       (script_openai (example_env encode forced content (Some example_snapshot) answer failure))
       (script_anthropic (example_env encode forced content (Some example_snapshot) answer failure))"
  "\<not> no_usable_data
       (fetch_openai (example_env encode forced content (Some example_snapshot) answer failure))
       (fetch_anthropic (example_env encode forced content (Some example_snapshot) answer failure))"
  by (simp_all add: no_usable_data_def example_env_openai example_snapshot_truthy)
     (simp add: example_env_def example_snapshot_truthy)

lemma example_env_first_run:
  "has_changes (example_env encode forced None fetched answer failure) new_pricing"
  by (simp add: has_changes_def example_env_loads_nothing compare_pricing_def)

lemma no_is_not_yes: "\<not> answers_yes ''n''"
  by (simp add: answers_yes_def strip_def is_space_def lower_def lower_char_def)

lemma example_document_truthy: "truthy_document (Some (example_document t))"
  by (simp add: truthy_document_def example_document_def empty_document_def)

subsection \<open>Confirmation\<close>

text \<open>
  C3.  The save must be gated by the confirmation unless forced.  \<open>src/script\<close> does
  so (see above).  \<open>src/scripts\<close> tests
  \<open>args.force or input(...).strip().lower() == 'y' or True\<close>, which is true for every
  answer: on a first run that fetches \<open>example_snapshot\<close>, without \<open>--force\<close> and with
  the answer "n", it writes the new document and exits with 0, where \<open>src/script\<close>
  leaves the file missing.
\<close>

theorem main_scripts_saves_unconfirmed:
  "main_scripts (example_env encode False None (Some example_snapshot) (Inr ''n'') None)
     = (Inr 0,
        Some (encode \<lparr>last_updated = Some ''2025-06-30T12:00:00+00:00'',
                      sources = Some [(''openai'', ''https://openai.com/api/pricing/''),
                                      (''anthropic'',
                                       ''https://docs.anthropic.com/en/docs/about-claude/models'')],
                      models = Some [(''openai'', example_snapshot)]\<rparr>))
   \<and> main_script (example_env encode False None (Some example_snapshot) (Inr ''n'') None)
     = (0, None)"
proof
  let ?e = "example_env encode False None (Some example_snapshot) (Inr ''n'') None"
  have input: "user_input ?e = Inr ''n''" by (simp add: example_env_def)
  have saves: "scripts_saves ?e" by (simp add: scripts_saves_def example_env_first_run)
  have doc: "scripts_new_pricing ?e
      = \<lparr>last_updated = Some ''2025-06-30T12:00:00+00:00'',
         sources = Some [(''openai'', ''https://openai.com/api/pricing/''),
                         (''anthropic'',
                          ''https://docs.anthropic.com/en/docs/about-claude/models'')],
         models = Some [(''openai'', example_snapshot)]\<rparr>"
    by (simp add: scripts_new_pricing_def build_new_pricing_def merge_provider_def
        example_env_loads_nothing truthy_document_def)
       (simp add: example_env_def truthy_snapshot_def example_snapshot_def)
  have "fst (main_scripts ?e) = Inr 0"
    using main_scripts_status [OF input] example_env_usable(2) [of encode False None "Inr ''n''" None]
    by (simp add: example_env_def)
  moreover have "snd (main_scripts ?e) = Some (encode (scripts_new_pricing ?e))"
    using main_scripts_file [OF input] example_env_usable(2) [of encode False None "Inr ''n''" None]
      saves
    by (simp add: example_env_def)
  ultimately show "main_scripts ?e
     = (Inr 0,
        Some (encode \<lparr>last_updated = Some ''2025-06-30T12:00:00+00:00'',
                      sources = Some [(''openai'', ''https://openai.com/api/pricing/''),
                                      (''anthropic'',
                                       ''https://docs.anthropic.com/en/docs/about-claude/models'')],
                      models = Some [(''openai'', example_snapshot)]\<rparr>))"
    unfolding doc by (cases "main_scripts ?e") simp
  have "\<not> confirmed ?e" by (simp add: confirmed_def example_env_def no_is_not_yes)
  moreover have "\<not> force ?e" and "pricing_file ?e = None" by (simp_all add: example_env_def)
  ultimately show "main_script ?e = (0, None)"
    using main_script_save_gated [of ?e] example_env_first_run [of encode False "Some example_snapshot" "Inr ''n''" None]
      example_env_usable(1) [of encode False None "Inr ''n''" None]
    by simp
qed

subsection \<open>Total fetch failure\<close>

text \<open>
  C8 as stated fails.  A snapshot file that exists but cannot be decoded, or that
  holds the empty object, is no existing data: \<open>load_existing_pricing\<close> returns
  \<open>None\<close> or \<open>{}\<close>, and both copies of \<open>main\<close> exit with 1 when both fetches fail.
\<close>

theorem unusable_file_exit_status:
  "pricing_file (unusable_file_env (Some empty_document)) = Some ''{}''
   \<and> no_usable_data (fetch_openai (unusable_file_env (Some empty_document)))
         (fetch_anthropic (unusable_file_env (Some empty_document)))
   \<and> main_script (unusable_file_env (Some empty_document)) = (1, Some ''{}'')
   \<and> main_scripts (unusable_file_env (Some empty_document)) = (Inr 1, Some ''{}'')
   \<and> main_script (unusable_file_env None) = (1, Some ''{}'')
   \<and> main_scripts (unusable_file_env None) = (Inr 1, Some ''{}'')"
  by (simp add: main_script_def main_scripts_def script_openai_def script_anthropic_def
      validated_def load_existing_pricing_def truthy_document_def truthy_snapshot_def
      no_usable_data_def unusable_file_env_def)

text \<open>
  C8, amended.  When no provider yields usable data (in \<open>src/script\<close>: after
  validation) and the snapshot file exists and loads as a non-empty document, both
  copies of \<open>main\<close> exit with status 0 and the file after the run is the file before
  it.  When the file is missing, cannot be decoded or holds the empty object, they exit
  with status 1; the file is left as it was in this case too.
\<close>

theorem fetch_failure_keeps_file:
  "(no_usable_data (script_openai e) (script_anthropic e)
      \<longrightarrow> main_script e
           = (if truthy_document (load_existing_pricing e) then 0 else 1, pricing_file e))
   \<and> (no_usable_data (fetch_openai e) (fetch_anthropic e)
      \<longrightarrow> main_script e
           = (if truthy_document (load_existing_pricing e) then 0 else 1, pricing_file e)
        \<and> main_scripts e
           = (Inr (if truthy_document (load_existing_pricing e) then 0 else 1), pricing_file e))
   \<and> (truthy_document (load_existing_pricing e) \<longrightarrow> pricing_file e \<noteq> None)"
proof (intro conjI impI)
  assume "no_usable_data (script_openai e) (script_anthropic e)"
  then show "main_script e
      = (if truthy_document (load_existing_pricing e) then 0 else 1, pricing_file e)"
    by (simp add: main_script_def no_usable_data_def)
next
  assume none: "no_usable_data (fetch_openai e) (fetch_anthropic e)"
  then have "no_usable_data (script_openai e) (script_anthropic e)"
    by (simp add: no_usable_data_def script_openai_def script_anthropic_def
        validated_keeps_unusable)
  then show "main_script e
      = (if truthy_document (load_existing_pricing e) then 0 else 1, pricing_file e)"
    by (simp add: main_script_def no_usable_data_def)
  from none show "main_scripts e
      = (Inr (if truthy_document (load_existing_pricing e) then 0 else 1), pricing_file e)"
    by (simp add: main_scripts_def no_usable_data_def)
next
  assume "truthy_document (load_existing_pricing e)"
  then show "pricing_file e \<noteq> None"
    by (auto simp: load_existing_pricing_def truthy_document_def split: option.splits)
qed

theorem fetch_failure_keeps_file_witness:
  "truthy_document (load_existing_pricing
      (example_env (\<lambda>doc. []) False (Some ''saved'') None (Inl EOFError) None))
   \<and> main_script (example_env (\<lambda>doc. []) False (Some ''saved'') None (Inl EOFError) None)
       = (0, Some ''saved'')
   \<and> main_scripts (example_env (\<lambda>doc. []) False (Some ''saved'') None (Inl EOFError) None)
       = (Inr 0, Some ''saved'')
   \<and> \<not> truthy_document (load_existing_pricing
      (example_env (\<lambda>doc. []) False None None (Inl EOFError) None))
   \<and> main_script (example_env (\<lambda>doc. []) False None None (Inl EOFError) None) = (1, None)
   \<and> main_scripts (example_env (\<lambda>doc. []) False None None (Inl EOFError) None) = (Inr 1, None)"
proof -
  let ?e = "example_env (\<lambda>doc. []) False (Some ''saved'') None (Inl EOFError) None"
  let ?missing = "example_env (\<lambda>doc. []) False None None (Inl EOFError) None"
  have loaded: "truthy_document (load_existing_pricing ?e)"
    by (simp add: example_env_loads example_document_truthy)
  have unloaded: "\<not> truthy_document (load_existing_pricing ?missing)"
    by (simp add: example_env_loads_nothing truthy_document_def)
  have none: "no_usable_data (fetch_openai ?e) (fetch_anthropic ?e)"
    "no_usable_data (fetch_openai ?missing) (fetch_anthropic ?missing)"
    by (simp_all add: no_usable_data_def example_env_def truthy_snapshot_def)
  have files: "pricing_file ?e = Some ''saved''" "pricing_file ?missing = None"
    by (simp_all add: example_env_def)
  from fetch_failure_keeps_file [of ?e] none(1) loaded files(1)
  have kept: "main_script ?e = (0, Some ''saved'')" "main_scripts ?e = (Inr 0, Some ''saved'')"
    by simp_all
  from fetch_failure_keeps_file [of ?missing] none(2) unloaded files(2)
  have failed: "main_script ?missing = (1, None)" "main_scripts ?missing = (Inr 1, None)"
    by simp_all
  from loaded kept unloaded failed show ?thesis
    by (simp only: simp_thms)
qed

subsection \<open>Exit status\<close>

text \<open>
  C4 as stated fails: the status is also 1 when the save fails.  In the run below
  OpenAI yields a snapshot that passes validation, \<open>--force\<close> is given and writing the
  file raises.
\<close>

theorem failed_save_exit_status:
  "fst (main_script (example_env (\<lambda>doc. []) True None (Some example_snapshot) (Inr ''y'')
          (Some None))) = 1
   \<and> truthy_snapshot (script_openai (example_env (\<lambda>doc. []) True None (Some example_snapshot)
          (Inr ''y'') (Some None)))"
proof -
  let ?e = "example_env (\<lambda>doc. []) True None (Some example_snapshot) (Inr ''y'') (Some None)"
  have "script_saves ?e" and "write_failure ?e \<noteq> None"
    by (simp_all add: script_saves_def example_env_def)
  then have "fst (main_script ?e) = 1"
    using example_env_usable(1) [of "\<lambda>doc. []" True None "Inr ''y''" "Some None"]
    by (simp add: main_script_status)
  then show ?thesis by (simp add: example_env_openai example_snapshot_truthy)
qed

text \<open>
  C4, amended.  The exit status is 1 in exactly two cases: no provider yielded usable
  data and no existing snapshot was loaded; or some provider did, a save was attempted
  and writing the file failed.  In every other case it is 0: no changes, existing data
  kept after a total fetch failure, a save that succeeds, a confirmation that is not
  given.  For \<open>src/scripts\<close> this is stated for the runs in which \<open>input\<close> returns a line.
\<close>

theorem exit_status:
  "fst (main_script e) =
     (if no_usable_data (script_openai e) (script_anthropic e)
         \<and> \<not> truthy_document (load_existing_pricing e) then 1
      else if \<not> no_usable_data (script_openai e) (script_anthropic e)
         \<and> script_saves e \<and> write_failure e \<noteq> None then 1
      else 0)
   \<and> (user_input e = Inr response \<longrightarrow>
        fst (main_scripts e) =
          Inr (if no_usable_data (fetch_openai e) (fetch_anthropic e)
                  \<and> \<not> truthy_document (load_existing_pricing e) then 1
               else if \<not> no_usable_data (fetch_openai e) (fetch_anthropic e)
                  \<and> scripts_saves e \<and> write_failure e \<noteq> None then 1
               else 0))"
proof (intro conjI impI)
  show "fst (main_script e) =
     (if no_usable_data (script_openai e) (script_anthropic e)
         \<and> \<not> truthy_document (load_existing_pricing e) then 1
      else if \<not> no_usable_data (script_openai e) (script_anthropic e)
         \<and> script_saves e \<and> write_failure e \<noteq> None then 1
      else 0)"
    unfolding main_script_status by simp
next
  assume "user_input e = Inr response"
  then show "fst (main_scripts e) =
          Inr (if no_usable_data (fetch_openai e) (fetch_anthropic e)
                  \<and> \<not> truthy_document (load_existing_pricing e) then 1
               else if \<not> no_usable_data (fetch_openai e) (fetch_anthropic e)
                  \<and> scripts_saves e \<and> write_failure e \<noteq> None then 1
               else 0)"
    by (simp only: main_scripts_status) simp
qed

theorem exit_status_witness:
  "fst (main_script (example_env (\<lambda>doc. []) False None None (Inr ''y'') None)) = 1
   \<and> fst (main_scripts (example_env (\<lambda>doc. []) False None None (Inr ''y'') None)) = Inr 1
   \<and> fst (main_script (example_env (\<lambda>doc. []) False None (Some example_snapshot) (Inr ''y'')
            (Some None))) = 1
   \<and> fst (main_scripts (example_env (\<lambda>doc. []) False None (Some example_snapshot) (Inr ''y'')
            (Some None))) = Inr 1
   \<and> fst (main_script (example_env (\<lambda>doc. []) False None (Some example_snapshot) (Inr ''y'')
            None)) = 0
   \<and> fst (main_scripts (example_env (\<lambda>doc. []) False None (Some example_snapshot) (Inr ''y'')
            None)) = Inr 0"
proof -
  let ?none = "example_env (\<lambda>doc. []) False None None (Inr ''y'') None"
  let ?fails = "example_env (\<lambda>doc. []) False None (Some example_snapshot) (Inr ''y'') (Some None)"
  let ?saves = "example_env (\<lambda>doc. []) False None (Some example_snapshot) (Inr ''y'') None"
  have yes: "answers_yes ''y''"
    by (simp add: answers_yes_def strip_def is_space_def lower_def lower_char_def)
  have none: "no_usable_data (script_openai ?none) (script_anthropic ?none)"
    "no_usable_data (fetch_openai ?none) (fetch_anthropic ?none)"
    "\<not> truthy_document (load_existing_pricing ?none)"
    by (simp_all add: no_usable_data_def example_env_anthropic example_env_loads_nothing
        truthy_document_def)
       (simp_all add: script_openai_def validated_def example_env_def truthy_snapshot_def)
  have fails: "script_saves ?fails" "scripts_saves ?fails" "write_failure ?fails \<noteq> None"
    by (simp_all add: script_saves_def scripts_saves_def example_env_first_run confirmed_def)
       (simp_all add: example_env_def yes)
  have saves: "write_failure ?saves = None" by (simp add: example_env_def)
  have input: "user_input ?none = Inr ''y''" "user_input ?fails = Inr ''y''"
    "user_input ?saves = Inr ''y''" by (simp_all add: example_env_def)
  show ?thesis
    using exit_status [of ?none "''y''"] exit_status [of ?fails "''y''"]
      exit_status [of ?saves "''y''"] none fails saves input
      example_env_usable [of "\<lambda>doc. []" False None "Inr ''y''" "Some None"]
      example_env_usable [of "\<lambda>doc. []" False None "Inr ''y''" None]
    by simp
qed

end
